theory Spec2Isabelle
  imports Complex_Main "HOL-Library.Log_Nat"
begin

section \<open>IFRS financial statements generator: the projection model of finance\_app.py\<close>

text \<open>
  The script reads its assumptions from sidebar widgets, parses the asset text area,
  runs three passes over the projected years (income statement, cash flow, balance
  sheet) and formats the numeric tables for display.

  The three passes are modelled over exact reals, and what is proved of them is what
  does not depend on rounding: which value is read, which expression is evaluated, in
  which order. The one property of the script that is about rounding, the residual of
  the balancing plug of lines 292 and 294, is proved of these two lines in binary64
  arithmetic (\<open>plug binary64\<close> below), not of the exact reading. Python's
  \<^verbatim>\<open>int\<close> values (horizon, decimals, asset life) are \<^typ>\<open>int\<close>. Every
  exception the script can raise is a value of \<open>py_error\<close>, returned as \<open>Inl\<close>.
\<close>

subsection \<open>Data model\<close>

datatype py_error = ZeroDivisionError | KeyError | IndexError

text \<open>An entry of \<^verbatim>\<open>assets_list\<close>: the tuple (name, value, life).\<close>

type_synonym asset = "string \<times> real \<times> int"

text \<open>The values of the sidebar widgets, lines 162 to 206.\<close>

record assumptions =
  years :: int
  currency_symbol :: string
  decimals :: int
  opening_cash :: real
  opening_ar :: real
  opening_inventory :: real
  opening_ppe :: real
  opening_ncl :: real
  opening_cl :: real
  opening_equity :: real
  opening_retained :: real
  units :: real
  price_per_unit :: real
  unit_growth :: real
  price_growth :: real
  variable_cost_per_unit :: real
  fixed_costs :: real
  tax_rate :: real
  interest :: real
  capex_input :: real
  num_employees :: real
  avg_salary :: real
  salary_growth :: real
  assets_input :: string

text \<open>
  The ranges the widgets enforce: the horizon slider runs from 1 to 10, the decimals
  input from 0 to 6, and the percentage sliders from 0 to 50 or 20, divided by 100.
  The \<^verbatim>\<open>number_input\<close> widgets carry no bounds.
\<close>

definition widget_ranges :: "assumptions \<Rightarrow> bool" where
  "widget_ranges a \<longleftrightarrow>
     1 \<le> years a \<and> years a \<le> 10 \<and>
     0 \<le> decimals a \<and> decimals a \<le> 6 \<and>
     0 \<le> unit_growth a \<and> unit_growth a \<le> 50 / 100 \<and>
     0 \<le> price_growth a \<and> price_growth a \<le> 20 / 100 \<and>
     0 \<le> tax_rate a \<and> tax_rate a \<le> 50 / 100 \<and>
     0 \<le> salary_growth a \<and> salary_growth a \<le> 20 / 100"

text \<open>One row of \<^verbatim>\<open>data\<close> (the frame \<^verbatim>\<open>df\<close>), in column order.\<close>

record is_row =
  is_Year :: string
  is_Sales :: real
  is_Gross_Profit :: real
  is_Fixed_Costs :: real
  is_Manpower :: real
  is_Depreciation :: real
  is_EBIT :: real
  is_Interest :: real
  is_Taxes :: real
  is_Net_Income :: real
  is_Units :: real
  is_Price_per_Unit :: real
  is_CapEx_Input :: real

text \<open>One dict of \<^verbatim>\<open>cf_rows\<close>.\<close>

record cf_row =
  cf_Year :: string
  cf_Net_Income :: real
  cf_Depreciation :: real
  cf_dAR :: real
  cf_dInventory :: real
  cf_dAP :: real
  cf_Net_CF_Ops :: real
  cf_CapEx :: real
  cf_Net_CF_Inv :: real
  cf_Change_NCL :: real
  cf_Change_SC :: real
  cf_Interest_Paid :: real
  cf_Net_CF_Fin :: real
  cf_Net_Change_Cash :: real
  cf_Closing_Cash :: real

text \<open>One dict of \<^verbatim>\<open>bs_rows\<close>.\<close>

record bs_row =
  bs_Year :: string
  bs_PPE :: real
  bs_Cash :: real
  bs_Accounts_Receivable :: real
  bs_Inventory :: real
  bs_Total_Current_Assets :: real
  bs_Total_Assets :: real
  bs_Share_Capital :: real
  bs_Retained_Earnings :: real
  bs_Total_Equity :: real
  bs_Non_Current_Liabilities :: real
  bs_Current_Liabilities :: real
  bs_Total_Liabilities_Equity :: real

subsection \<open>Parsing the asset text area (lines 196 to 203)\<close>

text \<open>\<^verbatim>\<open>s.split(sep)\<close> for a one-character separator.\<close>

fun split_acc :: "char \<Rightarrow> string \<Rightarrow> string \<Rightarrow> string list" where
  "split_acc sep acc [] = [rev acc]"
| "split_acc sep acc (c # cs) =
     (if c = sep then rev acc # split_acc sep [] cs else split_acc sep (c # acc) cs)"

definition split :: "string \<Rightarrow> char \<Rightarrow> string list" where
  "split s sep = split_acc sep [] s"

text \<open>The ASCII characters that \<^verbatim>\<open>str.strip()\<close> removes.\<close>

definition isspace :: "char \<Rightarrow> bool" where
  "isspace c \<longleftrightarrow>
     c \<in> set [CHR 0x09, CHR 0x0A, CHR 0x0B, CHR 0x0C, CHR 0x0D,
              CHR 0x1C, CHR 0x1D, CHR 0x1E, CHR 0x1F, CHR 0x20]"

definition strip :: "string \<Rightarrow> string" where
  "strip s = rev (dropWhile isspace (rev (dropWhile isspace s)))"

text \<open>
  The builtins \<^verbatim>\<open>float\<close> and \<^verbatim>\<open>int\<close> are parameters of the parser:
  \<open>None\<close> stands for the \<^verbatim>\<open>ValueError\<close> that the bare \<^verbatim>\<open>except\<close> swallows.
  A line is kept when it has exactly three fields and both conversions succeed.
\<close>

definition parse_line ::
  "(string \<Rightarrow> real option) \<Rightarrow> (string \<Rightarrow> int option) \<Rightarrow> string \<Rightarrow> asset option" where
  "parse_line to_float to_int line =
     (case map strip (split line CHR '','') of
        [p0, p1, p2] \<Rightarrow>
          (case to_float p1 of
             None \<Rightarrow> None
           | Some v \<Rightarrow> (case to_int p2 of None \<Rightarrow> None | Some l \<Rightarrow> Some (p0, v, l)))
      | _ \<Rightarrow> None)"

definition parse_assets ::
  "(string \<Rightarrow> real option) \<Rightarrow> (string \<Rightarrow> int option) \<Rightarrow> string \<Rightarrow> asset list" where
  "parse_assets to_float to_int txt =
     List.map_filter (parse_line to_float to_int) (split txt CHR 0x0A)"

text \<open>
  Concrete conversions for plain decimal literals: an optional sign and digits for
  \<^verbatim>\<open>int\<close>, with an optional fractional part for \<^verbatim>\<open>float\<close>. On these strings
  they agree with the builtins; they are used to run the parser on concrete text.
\<close>

fun index_of :: "char \<Rightarrow> string \<Rightarrow> nat \<Rightarrow> nat option" where
  "index_of c [] i = None"
| "index_of c (d # ds) i = (if c = d then Some i else index_of c ds (Suc i))"

definition digit_val :: "char \<Rightarrow> nat option" where
  "digit_val c = index_of c ''0123456789'' 0"

fun digits_val :: "nat \<Rightarrow> string \<Rightarrow> nat option" where
  "digits_val acc [] = Some acc"
| "digits_val acc (c # cs) =
     (case digit_val c of None \<Rightarrow> None | Some d \<Rightarrow> digits_val (10 * acc + d) cs)"

definition unsigned_int :: "string \<Rightarrow> nat option" where
  "unsigned_int s = (if s = [] then None else digits_val 0 s)"

definition dec_int :: "string \<Rightarrow> int option" where
  "dec_int s =
     (case s of
        [] \<Rightarrow> None
      | c # cs \<Rightarrow>
          if c = CHR ''-'' then map_option (\<lambda>n. - int n) (unsigned_int cs)
          else if c = CHR ''+'' then map_option int (unsigned_int cs)
          else map_option int (unsigned_int s))"

definition unsigned_float :: "string \<Rightarrow> real option" where
  "unsigned_float s =
     (let ip = takeWhile (\<lambda>c. c \<noteq> CHR ''.'') s;
          rest = dropWhile (\<lambda>c. c \<noteq> CHR ''.'') s;
          fp = (case rest of [] \<Rightarrow> [] | _ # f \<Rightarrow> f)
      in if ip = [] \<and> fp = [] then None
         else (case digits_val 0 ip of
                 None \<Rightarrow> None
               | Some i \<Rightarrow>
                   (case digits_val 0 fp of
                      None \<Rightarrow> None
                    | Some f \<Rightarrow> Some (real i + real f / 10 ^ length fp))))"

definition dec_float :: "string \<Rightarrow> real option" where
  "dec_float s =
     (case s of
        [] \<Rightarrow> None
      | c # cs \<Rightarrow>
          if c = CHR ''-'' then map_option uminus (unsigned_float cs)
          else if c = CHR ''+'' then unsigned_float cs
          else unsigned_float s)"

subsection \<open>Income statement pass (lines 211 to 228)\<close>

text \<open>\<^verbatim>\<open>val / life\<close>: a zero life raises ZeroDivisionError.\<close>

definition py_div :: "real \<Rightarrow> int \<Rightarrow> py_error + real" where
  "py_div v l = (if l = 0 then Inl ZeroDivisionError else Inr (v / real_of_int l))"

text \<open>\<^verbatim>\<open>sum(val / life for _, val, life in assets_list)\<close>, left to right from 0.\<close>

fun sum_val_life :: "real \<Rightarrow> asset list \<Rightarrow> py_error + real" where
  "sum_val_life acc [] = Inr acc"
| "sum_val_life acc ((name, v, l) # rest) =
     (case py_div v l of Inl e \<Rightarrow> Inl e | Inr q \<Rightarrow> sum_val_life (acc + q) rest)"

definition depreciation :: "asset list \<Rightarrow> py_error + real" where
  "depreciation assets_list = (if assets_list \<noteq> [] then sum_val_life 0 assets_list else Inr 0)"

definition cogs :: "assumptions \<Rightarrow> real \<Rightarrow> real" where
  "cogs a u = u * variable_cost_per_unit a"

definition manpower_cost :: "assumptions \<Rightarrow> real \<Rightarrow> real" where
  "manpower_cost a salary = num_employees a * salary"

definition opex :: "assumptions \<Rightarrow> real \<Rightarrow> real \<Rightarrow> real" where
  "opex a salary dep = fixed_costs a + manpower_cost a salary + dep"

definition taxes :: "assumptions \<Rightarrow> real \<Rightarrow> real" where
  "taxes a e = (if e > 0 then e * tax_rate a else 0)"

text \<open>\<^verbatim>\<open>f"Year {year}"\<close>.\<close>

definition digit_char :: "nat \<Rightarrow> char" where
  "digit_char d = ''0123456789'' ! d"

function str_nat :: "nat \<Rightarrow> string" where
  "str_nat n = (if n < 10 then [digit_char n] else str_nat (n div 10) @ [digit_char (n mod 10)])"
  by pat_completeness auto
termination
  by (relation "measure id") auto

definition str_int :: "int \<Rightarrow> string" where
  "str_int i = (if i < 0 then CHR ''-'' # str_nat (nat (- i)) else str_nat (nat i))"

definition year_label :: "int \<Rightarrow> string" where
  "year_label year = ''Year '' @ str_int year"

text \<open>The row appended for one year, from the loop variables u, p and salary.\<close>

definition income_row :: "assumptions \<Rightarrow> real \<Rightarrow> int \<Rightarrow> real \<Rightarrow> real \<Rightarrow> real \<Rightarrow> is_row" where
  "income_row a dep year u p salary =
     (let sales = u * p;
          gross_profit = sales - cogs a u;
          ebit = gross_profit - opex a salary dep;
          e = ebit - interest a;
          tx = taxes a e;
          net_income = e - tx
      in \<lparr> is_Year = year_label year, is_Sales = sales, is_Gross_Profit = gross_profit,
           is_Fixed_Costs = fixed_costs a, is_Manpower = manpower_cost a salary,
           is_Depreciation = dep, is_EBIT = ebit, is_Interest = interest a,
           is_Taxes = tx, is_Net_Income = net_income, is_Units = u,
           is_Price_per_Unit = p, is_CapEx_Input = capex_input a \<rparr>)"

text \<open>The loop over \<^verbatim>\<open>range(1, years + 1)\<close>, carrying u, p and salary.\<close>

fun income_loop ::
  "assumptions \<Rightarrow> asset list \<Rightarrow> int list \<Rightarrow> real \<Rightarrow> real \<Rightarrow> real \<Rightarrow> py_error + is_row list" where
  "income_loop a assets_list [] u p salary = Inr []"
| "income_loop a assets_list (year # ys) u p salary =
     (case depreciation assets_list of
        Inl e \<Rightarrow> Inl e
      | Inr dep \<Rightarrow>
          (case income_loop a assets_list ys
                  (u * (1 + unit_growth a)) (p * (1 + price_growth a))
                  (salary * (1 + salary_growth a)) of
             Inl e \<Rightarrow> Inl e
           | Inr rows \<Rightarrow> Inr (income_row a dep year u p salary # rows)))"

definition income_statement :: "assumptions \<Rightarrow> asset list \<Rightarrow> py_error + is_row list" where
  "income_statement a assets_list =
     income_loop a assets_list [1..years a] (units a) (price_per_unit a) (avg_salary a)"

subsection \<open>Cash flow pass (lines 235 to 264)\<close>

text \<open>The running variables of the pass, as initialised on lines 237 to 239.\<close>

record cf_state =
  ar_prev :: real
  inv_prev :: real
  ppe_prev :: real
  cash_prev :: real
  retained_prev :: real
  ncl_prev :: real
  sc_prev :: real
  cl_prev :: real

definition cf_init :: "assumptions \<Rightarrow> cf_state" where
  "cf_init a =
     \<lparr> ar_prev = opening_ar a, inv_prev = opening_inventory a, ppe_prev = opening_ppe a,
       cash_prev = opening_cash a, retained_prev = opening_retained a,
       ncl_prev = opening_ncl a, sc_prev = opening_equity a, cl_prev = opening_cl a \<rparr>"

definition cf_step :: "cf_state \<Rightarrow> is_row \<Rightarrow> cf_row \<times> cf_state" where
  "cf_step s row =
     (let net_income = is_Net_Income row;
          dep = is_Depreciation row;
          ar = is_Sales row * (20 / 100);
          inv = is_Sales row * (10 / 100);
          d_ar = ar - ar_prev s;
          d_inv = inv - inv_prev s;
          d_ap = 0;
          capex = is_CapEx_Input row;
          ppe_curr = ppe_prev s + capex - dep;
          d_ncl = 0;
          d_sc = 0;
          cf_ops = net_income + dep - d_ar - d_inv + d_ap;
          cf_inv = - capex;
          interest_paid = is_Interest row;
          cf_fin = d_ncl + d_sc - interest_paid;
          net_cf = cf_ops + cf_inv + cf_fin;
          closing_cash = cash_prev s + net_cf
      in (\<lparr> cf_Year = is_Year row, cf_Net_Income = net_income, cf_Depreciation = dep,
            cf_dAR = - d_ar, cf_dInventory = - d_inv, cf_dAP = d_ap,
            cf_Net_CF_Ops = cf_ops, cf_CapEx = - capex, cf_Net_CF_Inv = cf_inv,
            cf_Change_NCL = d_ncl, cf_Change_SC = d_sc, cf_Interest_Paid = - interest_paid,
            cf_Net_CF_Fin = cf_fin, cf_Net_Change_Cash = net_cf,
            cf_Closing_Cash = closing_cash \<rparr>,
          s\<lparr> ar_prev := ar, inv_prev := inv, ppe_prev := ppe_curr, cash_prev := closing_cash,
             retained_prev := retained_prev s + net_income \<rparr>))"

text \<open>The loop returns \<^verbatim>\<open>cf_rows\<close> and \<^verbatim>\<open>closing_cash_list\<close>.\<close>

fun cash_flow_loop :: "cf_state \<Rightarrow> is_row list \<Rightarrow> cf_row list \<times> real list" where
  "cash_flow_loop s [] = ([], [])"
| "cash_flow_loop s (row # rows) =
     (case cf_step s row of
        (r, s') \<Rightarrow>
          (case cash_flow_loop s' rows of
             (rs, cs) \<Rightarrow> (r # rs, cf_Closing_Cash r # cs)))"

definition cash_flow :: "assumptions \<Rightarrow> is_row list \<Rightarrow> cf_row list \<times> real list" where
  "cash_flow a df = cash_flow_loop (cf_init a) df"

subsection \<open>Binary64 rounding\<close>

text \<open>To the nearest integer, ties to the even one.\<close>

definition round_half_even :: "real \<Rightarrow> int" where
  "round_half_even x =
     (let f = floor x; r = x - of_int f
      in if r < 1 / 2 then f else if r > 1 / 2 then f + 1
         else if even f then f else f + 1)"

text \<open>
  Python's floats are IEEE 754 binary64 numbers, and each arithmetic operation on them
  returns the binary64 number nearest to the exact result, ties going to the even
  significand. \<open>binade x\<close> is the exponent e with \<open>pow2 e \<le> \<bar>x\<bar> < pow2 (e + 1)\<close>; the
  binary64 numbers of that binade are the multiples of \<open>pow2 (e - 52)\<close>, and
  \<open>binary64 x\<close> is the nearest of them. The exponent range is left unbounded: nothing
  overflows below \<open>pow2 1024\<close>, and a sum or difference of two binary64 numbers that
  falls under the normal range is exact, here as in the hardware.
\<close>

definition pow2 :: "int \<Rightarrow> real" where
  "pow2 e = (if 0 \<le> e then 2 ^ nat e else 1 / 2 ^ nat (- e))"

definition binade :: "real \<Rightarrow> int" where
  "binade x =
     (if 1 \<le> \<bar>x\<bar> then bitlen \<lfloor>\<bar>x\<bar>\<rfloor> - 1
      else - int (ceillog2 (nat \<lceil>1 / \<bar>x\<bar>\<rceil>)))"

definition binary64 :: "real \<Rightarrow> real" where
  "binary64 x =
     (if x = 0 then 0
      else let e = binade x - 52
           in of_int (round_half_even (x / pow2 e)) * pow2 e)"

subsection \<open>Balance sheet pass (lines 268 to 313)\<close>

text \<open>\<^verbatim>\<open>closing_cash_list[i]\<close> for a non-negative index.\<close>

definition py_index :: "'a list \<Rightarrow> nat \<Rightarrow> py_error + 'a" where
  "py_index xs i = (if i < length xs then Inr (xs ! i) else Inl IndexError)"

text \<open>
  Lines 292 and 294, the balancing plug, returning \<^verbatim>\<open>cl\<close> and
  \<^verbatim>\<open>total_liab_equity\<close>. The result of each addition and subtraction goes through
  \<open>rnd\<close>: \<open>plug binary64\<close> is what Python computes from the values of
  \<^verbatim>\<open>total_assets\<close>, \<^verbatim>\<open>ncl\<close> and \<^verbatim>\<open>total_equity\<close> (floats, or
  ints, which convert to floats exactly below \<open>2 ^ 53\<close>), and \<open>plug (\<lambda>x. x)\<close> is the
  same two lines in exact arithmetic.
\<close>

definition plug :: "(real \<Rightarrow> real) \<Rightarrow> real \<Rightarrow> real \<Rightarrow> real \<Rightarrow> real \<times> real" where
  "plug rnd total_assets ncl total_equity =
     (let cl = rnd (total_assets - rnd (ncl + total_equity));
          total_liab_equity = rnd (rnd (ncl + cl) + total_equity)
      in (cl, total_liab_equity))"

text \<open>
  The body of the loop, lines 273 to 294, in exact arithmetic: the plug is taken at the
  identity rounding, where it cancels, so this row says nothing of the size of the
  residual that the script's balance check measures.
\<close>

definition bs_step ::
  "assumptions \<Rightarrow> real \<Rightarrow> real \<Rightarrow> real \<Rightarrow> is_row \<Rightarrow> bs_row" where
  "bs_step a cash ppe0 retained0 row =
     (let ar = is_Sales row * (20 / 100);
          inv = is_Sales row * (10 / 100);
          ppe = ppe0 + is_CapEx_Input row - is_Depreciation row;
          retained = retained0 + is_Net_Income row;
          share_capital = opening_equity a;
          total_equity = share_capital + retained;
          ncl = opening_ncl a;
          total_current_assets = cash + ar + inv;
          total_assets = total_current_assets + ppe;
          (cl, total_liab_equity) = plug (\<lambda>x. x) total_assets ncl total_equity
      in \<lparr> bs_Year = is_Year row, bs_PPE = ppe, bs_Cash = cash,
           bs_Accounts_Receivable = ar, bs_Inventory = inv,
           bs_Total_Current_Assets = total_current_assets, bs_Total_Assets = total_assets,
           bs_Share_Capital = share_capital, bs_Retained_Earnings = retained,
           bs_Total_Equity = total_equity, bs_Non_Current_Liabilities = ncl,
           bs_Current_Liabilities = cl, bs_Total_Liabilities_Equity = total_liab_equity \<rparr>)"

text \<open>
  The loop over \<^verbatim>\<open>df.iterrows()\<close>: i is the row index, and the running PPE and
  retained earnings start again from the opening values.
\<close>

fun balance_loop ::
  "assumptions \<Rightarrow> real list \<Rightarrow> nat \<Rightarrow> real \<Rightarrow> real \<Rightarrow> is_row list \<Rightarrow> py_error + bs_row list" where
  "balance_loop a closing_cash_list i ppe0 retained0 [] = Inr []"
| "balance_loop a closing_cash_list i ppe0 retained0 (row # rows) =
     (case py_index closing_cash_list i of
        Inl e \<Rightarrow> Inl e
      | Inr cash \<Rightarrow>
          (let r = bs_step a cash ppe0 retained0 row in
           case balance_loop a closing_cash_list (Suc i)
                  (bs_PPE r) (bs_Retained_Earnings r) rows of
             Inl e \<Rightarrow> Inl e
           | Inr rs \<Rightarrow> Inr (r # rs)))"

definition balance_sheet ::
  "assumptions \<Rightarrow> real list \<Rightarrow> is_row list \<Rightarrow> py_error + bs_row list" where
  "balance_sheet a closing_cash_list df =
     balance_loop a closing_cash_list 0 (opening_ppe a) (opening_retained a) df"

subsection \<open>The three passes together\<close>

record projection =
  df :: "is_row list"
  cf_numeric :: "cf_row list"
  closing_cash_list :: "real list"
  bs_numeric :: "bs_row list"

definition project :: "assumptions \<Rightarrow> asset list \<Rightarrow> py_error + projection" where
  "project a assets_list =
     (case income_statement a assets_list of
        Inl e \<Rightarrow> Inl e
      | Inr rows \<Rightarrow>
          (case cash_flow a rows of
             (cf, ccl) \<Rightarrow>
               (case balance_sheet a ccl rows of
                  Inl e \<Rightarrow> Inl e
                | Inr bs \<Rightarrow>
                    Inr \<lparr> df = rows, cf_numeric = cf, closing_cash_list = ccl,
                          bs_numeric = bs \<rparr>)))"

subsection \<open>Formatted tables (lines 17 to 116 and 316 to 320)\<close>

text \<open>
  A cell of a display table is a string. The label column holds \<open>Text\<close> cells; a
  formatted number is kept as the arguments of its f-string: \<open>Currency symb d v\<close> is
  \<^verbatim>\<open>f"{symb}{v:,.{d}f}"\<close> and \<open>Units v\<close> is \<^verbatim>\<open>f"{v:,.0f}"\<close>. The rendering of
  a number into digits is Python's and is not modelled, so equal cells are equal
  strings, while distinct cells may still render alike.
\<close>

datatype cell = Text string | Currency string int real | Units real

text \<open>A dict kept in insertion order: assignment to an existing key overwrites in place.\<close>

fun dict_set :: "'k \<Rightarrow> 'v \<Rightarrow> ('k \<times> 'v) list \<Rightarrow> ('k \<times> 'v) list" where
  "dict_set k v [] = [(k, v)]"
| "dict_set k v ((k', v') # kvs) =
     (if k = k' then (k, v) # kvs else (k', v') # dict_set k v kvs)"

text \<open>The frame built from the dict \<^verbatim>\<open>out\<close>: its columns, in order.\<close>

type_synonym table = "(string \<times> cell list) list"

datatype ftype = F_currency | F_units | F_header

text \<open>
  The column of year number i. A row holds either a list with one value per year or
  the empty string, here \<open>None\<close>.
\<close>

definition is_column ::
  "string \<Rightarrow> int \<Rightarrow> (string \<times> real list option \<times> ftype) list \<Rightarrow> nat \<Rightarrow> cell list" where
  "is_column symb d rows i =
     map (\<lambda>(label, vals, ft).
            case vals of
              Some vs \<Rightarrow>
                (case ft of
                   F_currency \<Rightarrow> Currency symb d (vs ! i)
                 | F_units \<Rightarrow> Units (vs ! i)
                 | F_header \<Rightarrow> Text [])
            | None \<Rightarrow> Text []) rows"

definition make_ifrs_income_statement :: "is_row list \<Rightarrow> string \<Rightarrow> int \<Rightarrow> table" where
  "make_ifrs_income_statement frame symb d =
     (let ys = map is_Year frame;
          rows =
            [(''Revenue (Units '' @ [CHR 0xC3, CHR 0x97] @ '' Price per Unit)'',
                Some (map is_Sales frame), F_currency),
             (''  Units'', Some (map is_Units frame), F_units),
             (''  Price per Unit'', Some (map is_Price_per_Unit frame), F_currency),
             (''Cost of Sales'', Some (map (\<lambda>r. is_Sales r - is_Gross_Profit r) frame), F_currency),
             (''Gross Profit'', Some (map is_Gross_Profit frame), F_currency),
             (''Operating Expenses'', None, F_header),
             (''  Manpower Costs'', Some (map is_Manpower frame), F_currency),
             (''  Fixed Costs'', Some (map is_Fixed_Costs frame), F_currency),
             (''  Depreciation'', Some (map is_Depreciation frame), F_currency),
             (''EBIT'', Some (map is_EBIT frame), F_currency),
             (''Finance Costs'', Some (map is_Interest frame), F_currency),
             (''Profit Before Tax'', Some (map (\<lambda>r. is_EBIT r - is_Interest r) frame), F_currency),
             (''Income Tax Expense'', Some (map is_Taxes frame), F_currency),
             (''Net Profit for the Year'', Some (map is_Net_Income frame), F_currency)]
      in fold (\<lambda>(i, year) out. dict_set year (is_column symb d rows i) out)
           (enumerate 0 ys)
           [(''Item'', map (\<lambda>(label, vals, ft). Text label) rows)])"

text \<open>The column of year number i for the two-field rows of the other two tables.\<close>

definition currency_column ::
  "string \<Rightarrow> int \<Rightarrow> (string \<times> real list option) list \<Rightarrow> nat \<Rightarrow> cell list" where
  "currency_column symb d rows i =
     map (\<lambda>(label, vals).
            case vals of Some vs \<Rightarrow> Currency symb d (vs ! i) | None \<Rightarrow> Text []) rows"

text \<open>The rows of the balance sheet table: one row per asset, holding its value in every year.\<close>

definition bs_display_rows ::
  "bs_row list \<Rightarrow> asset list \<Rightarrow> (string \<times> real list option) list" where
  "bs_display_rows frame assets_list =
     (let ys = map bs_Year frame in
      [(''ASSETS'', None), (''  Non-current assets'', None)]
      @ map (\<lambda>(name, val, life). (''    '' @ name, Some (replicate (length ys) val))) assets_list
      @ [(''  Current assets'', None),
         (''    Cash'', Some (map bs_Cash frame)),
         (''    Accounts Receivable'', Some (map bs_Accounts_Receivable frame)),
         (''    Inventory'', Some (map bs_Inventory frame)),
         (''  Total Current Assets'', Some (map bs_Total_Current_Assets frame)),
         (''Total Assets'', Some (map bs_Total_Assets frame)),
         ([], None),
         (''EQUITY AND LIABILITIES'', None),
         (''  Equity'', None),
         (''    Share Capital'', Some (map bs_Share_Capital frame)),
         (''    Retained Earnings'', Some (map bs_Retained_Earnings frame)),
         (''  Total Equity'', Some (map bs_Total_Equity frame)),
         (''  Non-current Liabilities'', Some (map bs_Non_Current_Liabilities frame)),
         (''  Current Liabilities'', Some (map bs_Current_Liabilities frame)),
         (''Total Liabilities & Equity'', Some (map bs_Total_Liabilities_Equity frame))])"

text \<open>
  A frame built from an empty list of dicts has no columns, so the first column
  lookup of the function raises KeyError.
\<close>

definition make_ifrs_balance_sheet ::
  "bs_row list \<Rightarrow> asset list \<Rightarrow> string \<Rightarrow> int \<Rightarrow> py_error + table" where
  "make_ifrs_balance_sheet frame assets_list symb d =
     (if frame = [] then Inl KeyError
      else
        (let ys = map bs_Year frame;
             rows = bs_display_rows frame assets_list
         in Inr (fold (\<lambda>(i, year) out. dict_set year (currency_column symb d rows i) out)
                   (enumerate 0 ys)
                   [(''Item'', map (\<lambda>(label, vals). Text label) rows)])))"

definition make_ifrs_cashflow_display ::
  "cf_row list \<Rightarrow> string \<Rightarrow> int \<Rightarrow> py_error + table" where
  "make_ifrs_cashflow_display frame symb d =
     (if frame = [] then Inl KeyError
      else
        (let rows =
               [(''Cash Flows from Operating Activities'', None),
                (''  Net Profit for the Year'', Some (map cf_Net_Income frame)),
                (''  Depreciation'', Some (map cf_Depreciation frame)),
                (''  Change in Accounts Receivable'', Some (map cf_dAR frame)),
                (''  Change in Inventory'', Some (map cf_dInventory frame)),
                (''  Change in Accounts Payable'', Some (map cf_dAP frame)),
                (''Net Cash from Operating Activities'', Some (map cf_Net_CF_Ops frame)),
                (''Cash Flows from Investing Activities'', None),
                (''  Capital Expenditure (CapEx)'', Some (map cf_CapEx frame)),
                (''Net Cash from Investing Activities'', Some (map cf_Net_CF_Inv frame)),
                (''Cash Flows from Financing Activities'', None),
                (''  Change in Non-current Liabilities'', Some (map cf_Change_NCL frame)),
                (''  Change in Share Capital'', Some (map cf_Change_SC frame)),
                (''  Interest Paid'', Some (map cf_Interest_Paid frame)),
                (''Net Cash from Financing Activities'', Some (map cf_Net_CF_Fin frame)),
                (''Net Increase in Cash'', Some (map cf_Net_Change_Cash frame)),
                (''Closing Cash Balance'', Some (map cf_Closing_Cash frame))];
             ys = map cf_Year frame
         in Inr (fold (\<lambda>(i, year) out. dict_set year (currency_column symb d rows i) out)
                   (enumerate 0 ys)
                   [(''Item'', map (\<lambda>(label, vals). Text label) rows)])))"

text \<open>\<^verbatim>\<open>round(x, nd)\<close> on an exact real: to the nearest multiple, ties to even.\<close>

definition py_round :: "real \<Rightarrow> int \<Rightarrow> real" where
  "py_round x nd =
     (if 0 \<le> nd then of_int (round_half_even (x * 10 ^ nat nd)) / 10 ^ nat nd
      else of_int (round_half_even (x / 10 ^ nat (- nd))) * 10 ^ nat (- nd))"

text \<open>The rows of the depreciation schedule, line 316.\<close>

fun dep_schedule :: "asset list \<Rightarrow> int \<Rightarrow> py_error + (string \<times> real \<times> int \<times> real) list" where
  "dep_schedule [] d = Inr []"
| "dep_schedule ((n, v, l) # rest) d =
     (case py_div v l of
        Inl e \<Rightarrow> Inl e
      | Inr q \<Rightarrow>
          (case dep_schedule rest d of
             Inl e \<Rightarrow> Inl e
           | Inr rows \<Rightarrow> Inr ((n, v, l, py_round q d) # rows)))"

subsection \<open>The balance check and the whole script (lines 316 to 335)\<close>

text \<open>
  \<^verbatim>\<open>(bs["Total Assets"] - bs["Total Liabilities & Equity"]).abs().max()\<close>; the
  maximum of an empty column is NaN, here \<open>None\<close>. On the rows of the exact reading
  this gap is 0; the gap that the script measures is the residual of \<open>plug binary64\<close>.
\<close>

fun max_list :: "real list \<Rightarrow> real option" where
  "max_list [] = None"
| "max_list (x # xs) = (case max_list xs of None \<Rightarrow> Some x | Some m \<Rightarrow> Some (max x m))"

definition balance_gap :: "bs_row list \<Rightarrow> real option" where
  "balance_gap frame =
     max_list (map (\<lambda>r. \<bar>bs_Total_Assets r - bs_Total_Liabilities_Equity r\<bar>) frame)"

datatype banner = Balance_OK | Out_of_balance "real option"

definition balance_banner :: "real option \<Rightarrow> banner" where
  "balance_banner g =
     (case g of
        Some x \<Rightarrow> if x < 1 / 100 then Balance_OK else Out_of_balance g
      | None \<Rightarrow> Out_of_balance g)"

record shown_output =
  is_df :: table
  bs_df_display :: table
  cf_df :: table
  dep_table :: "(string \<times> real \<times> int \<times> real) list"
  gap :: "real option"
  shown :: banner

text \<open>Everything the script computes and shows from given assumptions.\<close>

definition run ::
  "(string \<Rightarrow> real option) \<Rightarrow> (string \<Rightarrow> int option) \<Rightarrow> assumptions \<Rightarrow> py_error + shown_output" where
  "run to_float to_int a =
     (let assets_list = parse_assets to_float to_int (assets_input a) in
      case project a assets_list of
        Inl e \<Rightarrow> Inl e
      | Inr pr \<Rightarrow>
          (case dep_schedule assets_list (decimals a) of
             Inl e \<Rightarrow> Inl e
           | Inr ds \<Rightarrow>
               (case make_ifrs_balance_sheet (bs_numeric pr) assets_list
                       (currency_symbol a) (decimals a) of
                  Inl e \<Rightarrow> Inl e
                | Inr bsd \<Rightarrow>
                    (case make_ifrs_cashflow_display (cf_numeric pr)
                            (currency_symbol a) (decimals a) of
                       Inl e \<Rightarrow> Inl e
                     | Inr cfd \<Rightarrow>
                         Inr \<lparr> is_df = make_ifrs_income_statement (df pr)
                                         (currency_symbol a) (decimals a),
                               bs_df_display = bsd, cf_df = cfd, dep_table = ds,
                               gap = balance_gap (bs_numeric pr),
                               shown = balance_banner (balance_gap (bs_numeric pr)) \<rparr>))))"

subsection \<open>The benchmark scenario\<close>

text \<open>
  Horizon 3, 10000 units at price 100, no growth, variable cost 40, fixed costs 200000,
  10 employees at 30000, one asset of value 300000 and life 10, tax rate 20 percent,
  interest 20000 and capex 50000 a year, with the opening balances of the scenario.
\<close>

definition benchmark :: assumptions where
  "benchmark =
     \<lparr> years = 3, currency_symbol = ''$'', decimals = 2,
       opening_cash = 100000, opening_ar = 50000, opening_inventory = 30000,
       opening_ppe = 400000, opening_ncl = 100000, opening_cl = 80000,
       opening_equity = 400000, opening_retained = 0,
       units = 10000, price_per_unit = 100, unit_growth = 0, price_growth = 0,
       variable_cost_per_unit = 40, fixed_costs = 200000, tax_rate = 20 / 100,
       interest = 20000, capex_input = 50000,
       num_employees = 10, avg_salary = 30000, salary_growth = 0,
       assets_input = ''Machinery, 300000, 10'' \<rparr>"

definition benchmark_assets :: "asset list" where
  "benchmark_assets = [(''Machinery'', 300000, 10)]"

section \<open>Properties of the three passes\<close>

lemma sum_val_life_Inr:
  "sum_val_life acc assets_list = Inr d \<Longrightarrow>
     d = acc + (\<Sum>(n, v, l) \<leftarrow> assets_list. v / real_of_int l) \<and>
     (\<forall>(n, v, l) \<in> set assets_list. l \<noteq> 0)"
proof (induction assets_list arbitrary: acc)
  case Nil
  then show ?case by simp
next
  case (Cons x xs)
  obtain n v l where x: "x = (n, v, l)" by (cases x)
  from Cons.prems x have l: "l \<noteq> 0" and rest: "sum_val_life (acc + v / real_of_int l) xs = Inr d"
    by (auto simp: py_div_def split: if_splits)
  from Cons.IH [OF rest] x l show ?case by simp
qed

lemma sum_val_life_total:
  "\<forall>(n, v, l) \<in> set assets_list. l \<noteq> 0 \<Longrightarrow> \<exists>d. sum_val_life acc assets_list = Inr d"
  by (induction assets_list arbitrary: acc) (auto simp: py_div_def)

lemma depreciation_Inr:
  "depreciation assets_list = Inr d \<Longrightarrow> d = (\<Sum>(n, v, l) \<leftarrow> assets_list. v / real_of_int l)"
  by (cases "assets_list = []") (auto simp: depreciation_def dest: sum_val_life_Inr)

lemma depreciation_total:
  "\<forall>(n, v, l) \<in> set assets_list. l \<noteq> 0 \<Longrightarrow> \<exists>d. depreciation assets_list = Inr d"
  using sum_val_life_total [of assets_list 0] by (simp add: depreciation_def)

lemma income_loop_Nil_iff:
  "income_loop a assets_list ys u p s = Inr [] \<longleftrightarrow> ys = []"
  by (cases ys) (auto split: sum.splits)

lemma income_loop_length:
  "income_loop a assets_list ys u p s = Inr rows \<Longrightarrow> length rows = length ys"
  by (induction ys arbitrary: u p s rows) (auto split: sum.splits)

lemma income_loop_rows:
  "income_loop a assets_list ys u p s = Inr rows \<Longrightarrow> r \<in> set rows \<Longrightarrow>
     \<exists>dep year u' p' s'. depreciation assets_list = Inr dep \<and> r = income_row a dep year u' p' s'"
proof (induction ys arbitrary: u p s rows)
  case Nil
  then show ?case by simp
next
  case (Cons y ys)
  then show ?case by (auto split: sum.splits) blast+
qed


lemma income_loop_total:
  "depreciation assets_list = Inr d \<Longrightarrow> \<exists>rows. income_loop a assets_list ys u p s = Inr rows"
proof (induction ys arbitrary: u p s)
  case Nil
  then show ?case by simp
next
  case (Cons y ys)
  from Cons.IH [OF Cons.prems] obtain rows where
    "income_loop a assets_list ys (u * (1 + unit_growth a)) (p * (1 + price_growth a))
       (s * (1 + salary_growth a)) = Inr rows"
    by blast
  with Cons.prems show ?case by simp
qed

lemma income_statement_length:
  "income_statement a assets_list = Inr rows \<Longrightarrow> length rows = nat (years a)"
  by (auto simp: income_statement_def dest: income_loop_length)

lemma cash_flow_loop_shape:
  "cash_flow_loop s rows = (cfs, ccl) \<Longrightarrow>
     length cfs = length rows \<and> ccl = map cf_Closing_Cash cfs"
  by (induction rows arbitrary: s cfs ccl) (auto split: prod.splits)

lemma balance_loop_length:
  "balance_loop a ccl i p0 r0 rows = Inr bs \<Longrightarrow> length bs = length rows"
  by (induction rows arbitrary: i p0 r0 bs) (auto split: sum.splits simp: Let_def)

lemma balance_loop_total:
  "i + length rows \<le> length ccl \<Longrightarrow> \<exists>bs. balance_loop a ccl i p0 r0 rows = Inr bs"
proof (induction rows arbitrary: i p0 r0)
  case Nil
  then show ?case by simp
next
  case (Cons row rows)
  from Cons.prems have i: "i < length ccl" and rest: "Suc i + length rows \<le> length ccl" by simp_all
  from Cons.IH [OF rest] obtain bs where
    "balance_loop a ccl (Suc i) (bs_PPE (bs_step a (ccl ! i) p0 r0 row))
        (bs_Retained_Earnings (bs_step a (ccl ! i) p0 r0 row)) rows = Inr bs"
    by blast
  with i show ?case by (simp add: py_index_def Let_def)
qed

lemma balance_loop_nth:
  "balance_loop a ccl i p0 r0 rows = Inr bs \<Longrightarrow> k < length rows \<Longrightarrow>
     i + k < length ccl \<and>
     bs ! k = bs_step a (ccl ! (i + k))
                (if k = 0 then p0 else bs_PPE (bs ! (k - 1)))
                (if k = 0 then r0 else bs_Retained_Earnings (bs ! (k - 1)))
                (rows ! k)"
proof (induction rows arbitrary: i p0 r0 bs k)
  case Nil
  then show ?case by simp
next
  case (Cons row rows)
  from Cons.prems(1) obtain rs where
    i: "i < length ccl" and
    bs: "bs = bs_step a (ccl ! i) p0 r0 row # rs" and
    rest: "balance_loop a ccl (Suc i) (bs_PPE (bs_step a (ccl ! i) p0 r0 row))
             (bs_Retained_Earnings (bs_step a (ccl ! i) p0 r0 row)) rows = Inr rs"
    by (auto simp: py_index_def Let_def split: sum.splits if_splits)
  show ?case
  proof (cases k)
    case 0
    with i bs show ?thesis by simp
  next
    case (Suc j)
    with Cons.prems(2) have j: "j < length rows" by simp
    from Cons.IH [OF rest j] Suc bs show ?thesis
      by (cases j) simp_all
  qed
qed

lemma project_Inr:
  assumes "project a assets_list = Inr pr"
  shows "income_statement a assets_list = Inr (df pr)"
    and "cash_flow a (df pr) = (cf_numeric pr, closing_cash_list pr)"
    and "balance_sheet a (closing_cash_list pr) (df pr) = Inr (bs_numeric pr)"
  using assms by (auto simp: project_def split: sum.splits prod.splits)

lemma project_lengths:
  assumes "project a assets_list = Inr pr"
  shows "length (df pr) = nat (years a)"
    and "length (cf_numeric pr) = nat (years a)"
    and "length (closing_cash_list pr) = nat (years a)"
    and "length (bs_numeric pr) = nat (years a)"
proof -
  from project_Inr(1) [OF assms] show n: "length (df pr) = nat (years a)"
    by (rule income_statement_length)
  from project_Inr(2) [OF assms] have
    c: "length (cf_numeric pr) = length (df pr) \<and>
        closing_cash_list pr = map cf_Closing_Cash (cf_numeric pr)"
    unfolding cash_flow_def by (rule cash_flow_loop_shape)
  from c n show "length (cf_numeric pr) = nat (years a)" by simp
  from c n show "length (closing_cash_list pr) = nat (years a)" by simp
  from project_Inr(3) [OF assms] have "length (bs_numeric pr) = length (df pr)"
    unfolding balance_sheet_def by (rule balance_loop_length)
  with n show "length (bs_numeric pr) = nat (years a)" by simp
qed

lemma year_index: "1 \<le> t \<Longrightarrow> t \<le> n \<Longrightarrow> nat (t - 1) < nat n"
  by simp

lemma project_bs_nth:
  assumes pr: "project a assets_list = Inr pr" and k: "k < nat (years a)"
  shows "bs_numeric pr ! k =
           bs_step a (cf_Closing_Cash (cf_numeric pr ! k))
             (if k = 0 then opening_ppe a else bs_PPE (bs_numeric pr ! (k - 1)))
             (if k = 0 then opening_retained a else bs_Retained_Earnings (bs_numeric pr ! (k - 1)))
             (df pr ! k)"
proof -
  from k project_lengths(1) [OF pr] have k': "k < length (df pr)" by simp
  from project_Inr(2) [OF pr] have
    c: "closing_cash_list pr = map cf_Closing_Cash (cf_numeric pr)"
    unfolding cash_flow_def by (auto dest: cash_flow_loop_shape)
  from k project_lengths(2) [OF pr] have "k < length (cf_numeric pr)" by simp
  with c have "closing_cash_list pr ! k = cf_Closing_Cash (cf_numeric pr ! k)" by simp
  with balance_loop_nth [OF project_Inr(3) [OF pr, unfolded balance_sheet_def] k']
  show ?thesis by simp
qed

lemma bs_step_fields:
  "bs_Total_Assets (bs_step a c p r row) = c + is_Sales row * (20 / 100) + is_Sales row * (10 / 100)
      + (p + is_CapEx_Input row - is_Depreciation row)"
  "bs_Non_Current_Liabilities (bs_step a c p r row) = opening_ncl a"
  "bs_Total_Equity (bs_step a c p r row) = opening_equity a + (r + is_Net_Income row)"
  "bs_Current_Liabilities (bs_step a c p r row) =
     bs_Total_Assets (bs_step a c p r row)
       - (bs_Non_Current_Liabilities (bs_step a c p r row) + bs_Total_Equity (bs_step a c p r row))"
  "bs_Total_Liabilities_Equity (bs_step a c p r row) =
     bs_Non_Current_Liabilities (bs_step a c p r row)
       + bs_Current_Liabilities (bs_step a c p r row) + bs_Total_Equity (bs_step a c p r row)"
  "bs_PPE (bs_step a c p r row) = p + is_CapEx_Input row - is_Depreciation row"
  "bs_Retained_Earnings (bs_step a c p r row) = r + is_Net_Income row"
  "bs_Cash (bs_step a c p r row) = c"
  "bs_Year (bs_step a c p r row) = is_Year row"
  by (simp_all add: bs_step_def plug_def Let_def)

lemma bs_step_balanced:
  "bs_Total_Assets (bs_step a c p r row) = bs_Total_Liabilities_Equity (bs_step a c p r row)"
  by (simp add: bs_step_fields(4,5))

lemma project_total:
  assumes "\<forall>(n, v, l) \<in> set assets_list. l \<noteq> 0"
  shows "\<exists>pr. project a assets_list = Inr pr"
proof -
  from depreciation_total [OF assms] obtain d where "depreciation assets_list = Inr d" ..
  from income_loop_total [OF this] obtain rows where
    rows: "income_statement a assets_list = Inr rows"
    unfolding income_statement_def by blast
  obtain cf ccl where cf: "cash_flow a rows = (cf, ccl)" by (cases "cash_flow a rows")
  then have "length ccl = length rows"
    unfolding cash_flow_def by (auto dest: cash_flow_loop_shape)
  then have "0 + length rows \<le> length ccl" by simp
  from balance_loop_total [OF this] obtain bs where "balance_sheet a ccl rows = Inr bs"
    unfolding balance_sheet_def by blast
  with rows cf show ?thesis by (simp add: project_def)
qed

lemma benchmark_project:
  "project benchmark benchmark_assets = Inr (projr (project benchmark benchmark_assets))"
proof -
  have "\<forall>(n, v, l) \<in> set benchmark_assets. l \<noteq> 0" by (simp add: benchmark_assets_def)
  from project_total [OF this] obtain pr where "project benchmark benchmark_assets = Inr pr" ..
  then show ?thesis by simp
qed

lemma benchmark_years: "years benchmark = 3"
  by (simp add: benchmark_def)

lemma income_row_fields:
  "is_Depreciation (income_row a dep y u p s) = dep"
  "is_Taxes (income_row a dep y u p s) =
     taxes a (is_EBIT (income_row a dep y u p s) - is_Interest (income_row a dep y u p s))"
  "is_Net_Income (income_row a dep y u p s) =
     (is_EBIT (income_row a dep y u p s) - is_Interest (income_row a dep y u p s))
       - is_Taxes (income_row a dep y u p s)"
  "is_CapEx_Input (income_row a dep y u p s) = capex_input a"
  "is_Year (income_row a dep y u p s) = year_label y"
  by (simp_all add: income_row_def Let_def)

lemma income_statement_nth:
  assumes "income_statement a assets_list = Inr rows" and "1 \<le> t" and "t \<le> years a"
  shows "nat (t - 1) < length rows"
    and "\<exists>dep y u p s. depreciation assets_list = Inr dep \<and>
           rows ! nat (t - 1) = income_row a dep y u p s"
proof -
  from assms(2,3) have "nat (t - 1) < nat (years a)" by (rule year_index)
  with income_statement_length [OF assms(1)] show k: "nat (t - 1) < length rows" by simp
  then have "rows ! nat (t - 1) \<in> set rows" by (rule nth_mem)
  with assms(1) show "\<exists>dep y u p s. depreciation assets_list = Inr dep \<and>
           rows ! nat (t - 1) = income_row a dep y u p s"
    unfolding income_statement_def by (rule income_loop_rows)
qed

lemma income_statement_first:
  assumes "1 \<le> years a" and "depreciation assets_list = Inr d"
  shows "\<exists>rest. income_statement a assets_list =
           Inr (income_row a d 1 (units a) (price_per_unit a) (avg_salary a) # rest)"
proof -
  from assms(1) have u: "[1..years a] = 1 # [2..years a]" by (simp add: upto_rec1)
  from income_loop_total [OF assms(2)] obtain rest where
    "income_loop a assets_list [2..years a] (units a * (1 + unit_growth a))
       (price_per_unit a * (1 + price_growth a)) (avg_salary a * (1 + salary_growth a)) = Inr rest"
    by blast
  with assms(2) show ?thesis by (simp add: income_statement_def u)
qed

lemma income_statement_total:
  assumes "\<forall>(n, v, l) \<in> set assets_list. l \<noteq> 0"
  shows "income_statement a assets_list = Inr (projr (income_statement a assets_list))"
proof -
  from depreciation_total [OF assms] obtain d where "depreciation assets_list = Inr d" ..
  from income_loop_total [OF this] obtain rows where "income_statement a assets_list = Inr rows"
    unfolding income_statement_def by blast
  then show ?thesis by simp
qed

lemma benchmark_depreciation: "depreciation benchmark_assets = Inr 30000"
  by (simp add: depreciation_def benchmark_assets_def py_div_def)

text \<open>
  Claim C2. In every projected year t the tax equals pre-tax profit times the tax rate
  when pre-tax profit (EBIT minus interest) is positive, and 0 when it is zero or
  negative; with a tax rate of 0 the tax is 0 whatever the sign of the profit, and with
  a non-negative rate the tax is never negative.
\<close>

theorem tax_rule:
  assumes "income_statement a assets_list = Inr rows" and "1 \<le> t" and "t \<le> years a"
  shows "nat (t - 1) < length rows \<and>
         (let r = rows ! nat (t - 1); e = is_EBIT r - is_Interest r
          in is_Taxes r = (if e > 0 then e * tax_rate a else 0) \<and>
             (e > 0 \<longrightarrow> is_Taxes r = e * tax_rate a) \<and>
             (e \<le> 0 \<longrightarrow> is_Taxes r = 0) \<and>
             (tax_rate a = 0 \<longrightarrow> is_Taxes r = 0) \<and>
             (0 \<le> tax_rate a \<longrightarrow> 0 \<le> is_Taxes r))"
proof -
  from income_statement_nth(2) [OF assms] obtain dep y u p s where
    r: "rows ! nat (t - 1) = income_row a dep y u p s" by blast
  show ?thesis
    unfolding Let_def r income_row_fields(2)
    using income_statement_nth(1) [OF assms] by (simp add: taxes_def)
qed

theorem tax_rule_witness:
  "is_Taxes (projr (income_statement benchmark benchmark_assets) ! nat (1 - 1)) = 10000 \<and>
   is_Taxes (projr (income_statement (benchmark\<lparr>units := 0\<rparr>) benchmark_assets) ! nat (1 - 1)) = 0 \<and>
   is_Taxes (projr (income_statement (benchmark\<lparr>tax_rate := 0\<rparr>) benchmark_assets) ! nat (1 - 1)) = 0"
proof -
  have nz: "\<forall>(n, v, l) \<in> set benchmark_assets. l \<noteq> 0" by (simp add: benchmark_assets_def)
  have o: "(1::int) \<le> 1" by simp
  let ?b1 = "benchmark" and ?b2 = "benchmark\<lparr>units := 0\<rparr>" and ?b3 = "benchmark\<lparr>tax_rate := 0\<rparr>"
  have y1: "1 \<le> years ?b1" and y2: "1 \<le> years ?b2" and y3: "1 \<le> years ?b3"
    by (simp_all add: benchmark_def)
  from income_statement_first [OF y1 benchmark_depreciation] obtain rest1 where
    "income_statement ?b1 benchmark_assets =
       Inr (income_row ?b1 30000 1 (units ?b1) (price_per_unit ?b1) (avg_salary ?b1) # rest1)" ..
  then have r1: "projr (income_statement ?b1 benchmark_assets) ! nat (1 - 1) =
      income_row ?b1 30000 1 (units ?b1) (price_per_unit ?b1) (avg_salary ?b1)" by simp
  from income_statement_first [OF y2 benchmark_depreciation] obtain rest2 where
    "income_statement ?b2 benchmark_assets =
       Inr (income_row ?b2 30000 1 (units ?b2) (price_per_unit ?b2) (avg_salary ?b2) # rest2)" ..
  then have r2: "projr (income_statement ?b2 benchmark_assets) ! nat (1 - 1) =
      income_row ?b2 30000 1 (units ?b2) (price_per_unit ?b2) (avg_salary ?b2)" by simp
  from income_statement_first [OF y3 benchmark_depreciation] obtain rest3 where
    "income_statement ?b3 benchmark_assets =
       Inr (income_row ?b3 30000 1 (units ?b3) (price_per_unit ?b3) (avg_salary ?b3) # rest3)" ..
  then have r3: "projr (income_statement ?b3 benchmark_assets) ! nat (1 - 1) =
      income_row ?b3 30000 1 (units ?b3) (price_per_unit ?b3) (avg_salary ?b3)" by simp
  have e1: "is_EBIT (income_row ?b1 30000 1 (units ?b1) (price_per_unit ?b1) (avg_salary ?b1))
            - is_Interest (income_row ?b1 30000 1 (units ?b1) (price_per_unit ?b1) (avg_salary ?b1)) = 50000"
    by (simp add: income_row_def Let_def benchmark_def cogs_def opex_def manpower_cost_def)
  have e2: "is_EBIT (income_row ?b2 30000 1 (units ?b2) (price_per_unit ?b2) (avg_salary ?b2))
            - is_Interest (income_row ?b2 30000 1 (units ?b2) (price_per_unit ?b2) (avg_salary ?b2)) = - 550000"
    by (simp add: income_row_def Let_def benchmark_def cogs_def opex_def manpower_cost_def)
  have t1: "tax_rate ?b1 = 20 / 100" and t3: "tax_rate ?b3 = 0" by (simp_all add: benchmark_def)
  from tax_rule [OF income_statement_total [OF nz] o y1] r1 e1 t1
  have c1: "is_Taxes (projr (income_statement ?b1 benchmark_assets) ! nat (1 - 1)) = 10000"
    by (simp add: Let_def)
  from tax_rule [OF income_statement_total [OF nz] o y2] r2 e2
  have c2: "is_Taxes (projr (income_statement ?b2 benchmark_assets) ! nat (1 - 1)) = 0"
    by (simp add: Let_def)
  from tax_rule [OF income_statement_total [OF nz] o y3] t3
  have c3: "is_Taxes (projr (income_statement ?b3 benchmark_assets) ! nat (1 - 1)) = 0"
    by (simp add: Let_def)
  from c1 c2 c3 show ?thesis by blast
qed

text \<open>
  Claim C7. For a fixed parsed asset list, the depreciation of every year's row is the
  same: the sum over the assets of value divided by life, which is 0 for the empty list.
\<close>

theorem depreciation_constant:
  assumes "income_statement a assets_list = Inr rows" and "1 \<le> t" and "t \<le> years a"
  shows "nat (t - 1) < length rows \<and>
         is_Depreciation (rows ! nat (t - 1)) = (\<Sum>(n, v, l) \<leftarrow> assets_list. v / real_of_int l) \<and>
         (assets_list = [] \<longrightarrow> is_Depreciation (rows ! nat (t - 1)) = 0)"
proof -
  from income_statement_nth(2) [OF assms] obtain dep y u p s where
    d: "depreciation assets_list = Inr dep" and
    r: "rows ! nat (t - 1) = income_row a dep y u p s" by blast
  from depreciation_Inr [OF d] have "dep = (\<Sum>(n, v, l) \<leftarrow> assets_list. v / real_of_int l)" .
  with r income_statement_nth(1) [OF assms] show ?thesis
    by (auto simp: income_row_fields(1))
qed

theorem depreciation_constant_witness:
  "is_Depreciation (projr (income_statement benchmark benchmark_assets) ! nat (3 - 1)) = 30000 \<and>
   is_Depreciation (projr (income_statement benchmark []) ! nat (3 - 1)) = 0"
proof -
  have nz: "\<forall>(n, v, l) \<in> set benchmark_assets. l \<noteq> 0" by (simp add: benchmark_assets_def)
  have nz0: "\<forall>(n, v, l) \<in> set ([] :: asset list). l \<noteq> 0" by simp
  have o: "(1::int) \<le> 3" by simp
  have y: "3 \<le> years benchmark" by (simp add: benchmark_def)
  from depreciation_constant [OF income_statement_total [OF nz] o y]
  have c1: "is_Depreciation (projr (income_statement benchmark benchmark_assets) ! nat (3 - 1)) = 30000"
    by (simp add: benchmark_assets_def)
  from depreciation_constant [OF income_statement_total [OF nz0] o y]
  have c2: "is_Depreciation (projr (income_statement benchmark []) ! nat (3 - 1)) = 0"
    by simp
  from c1 c2 show ?thesis by blast
qed

lemma cash_flow_loop_years:
  "cash_flow_loop s rows = (cfs, ccl) \<Longrightarrow> map cf_Year cfs = map is_Year rows"
  by (induction rows arbitrary: s cfs ccl) (auto split: prod.splits simp: cf_step_def Let_def)

text \<open>
  Claim C4. In every projected year t of a completed run, the cash of the balance sheet
  row is the closing cash of the cash flow row of the same year: both passes walk the
  same rows of the income frame (same year labels, same number of rows), and the
  balance sheet reads the closing cash list at the row's own index.
\<close>

theorem cash_agrees:
  assumes "project a assets_list = Inr pr" and "1 \<le> t" and "t \<le> years a"
  shows "nat (t - 1) < length (cf_numeric pr) \<and>
         length (bs_numeric pr) = length (cf_numeric pr) \<and>
         bs_Year (bs_numeric pr ! nat (t - 1)) = cf_Year (cf_numeric pr ! nat (t - 1)) \<and>
         bs_Cash (bs_numeric pr ! nat (t - 1)) = cf_Closing_Cash (cf_numeric pr ! nat (t - 1)) \<and>
         closing_cash_list pr ! nat (t - 1) = cf_Closing_Cash (cf_numeric pr ! nat (t - 1))"
proof -
  from assms(2,3) have k: "nat (t - 1) < nat (years a)" by (rule year_index)
  note len = project_lengths [OF assms(1)]
  from project_Inr(2) [OF assms(1)] have
    ys: "map cf_Year (cf_numeric pr) = map is_Year (df pr)" and
    c: "closing_cash_list pr = map cf_Closing_Cash (cf_numeric pr)"
    unfolding cash_flow_def by (auto dest: cash_flow_loop_years cash_flow_loop_shape)
  from k len have kc: "nat (t - 1) < length (cf_numeric pr)" and kd: "nat (t - 1) < length (df pr)"
    by simp_all
  from ys kc kd have y: "cf_Year (cf_numeric pr ! nat (t - 1)) = is_Year (df pr ! nat (t - 1))"
    by (metis nth_map)
  from c kc have cc: "closing_cash_list pr ! nat (t - 1) = cf_Closing_Cash (cf_numeric pr ! nat (t - 1))"
    by simp
  from project_bs_nth [OF assms(1) k] obtain p r where
    nth: "bs_numeric pr ! nat (t - 1) =
            bs_step a (cf_Closing_Cash (cf_numeric pr ! nat (t - 1))) p r (df pr ! nat (t - 1))"
    by blast
  show ?thesis
    unfolding nth bs_step_fields using kc len y cc by simp
qed

theorem cash_agrees_witness:
  "bs_Cash (bs_numeric (projr (project benchmark benchmark_assets)) ! nat (2 - 1)) =
     cf_Closing_Cash (cf_numeric (projr (project benchmark benchmark_assets)) ! nat (2 - 1))"
proof -
  have y: "(2::int) \<le> years benchmark" by (simp add: benchmark_years)
  have o: "(1::int) \<le> 2" by simp
  from cash_agrees [OF benchmark_project o y] show ?thesis by blast
qed

text \<open>
  Claim C5. In the balance sheet pass, PPE of year t is PPE of year t - 1 plus the
  capex of year t minus the depreciation of year t, and retained earnings of year t
  is retained earnings of year t - 1 plus the net income of year t, for every year
  t from 2 on; year 1 rolls forward from the opening PPE and the opening retained
  earnings. The capex of every year is the capex input.
\<close>

theorem roll_forward:
  assumes "project a assets_list = Inr pr" and "1 \<le> t" and "t \<le> years a"
  shows "nat (t - 1) < length (bs_numeric pr) \<and> nat (t - 1) < length (df pr) \<and>
         bs_PPE (bs_numeric pr ! nat (t - 1)) =
           (if t = 1 then opening_ppe a else bs_PPE (bs_numeric pr ! nat (t - 2)))
             + is_CapEx_Input (df pr ! nat (t - 1)) - is_Depreciation (df pr ! nat (t - 1)) \<and>
         bs_Retained_Earnings (bs_numeric pr ! nat (t - 1)) =
           (if t = 1 then opening_retained a
            else bs_Retained_Earnings (bs_numeric pr ! nat (t - 2)))
             + is_Net_Income (df pr ! nat (t - 1)) \<and>
         is_CapEx_Input (df pr ! nat (t - 1)) = capex_input a"
proof -
  from assms(2,3) have k: "nat (t - 1) < nat (years a)" by (rule year_index)
  note len = project_lengths [OF assms(1)]
  from assms(2) have z: "nat (t - 1) = 0 \<longleftrightarrow> t = 1" by auto
  from assms(2) have m: "nat (t - 1) - 1 = nat (t - 2)" by auto
  from income_statement_nth(2) [OF project_Inr(1) [OF assms(1)] assms(2,3)]
  obtain dep y u p s where "df pr ! nat (t - 1) = income_row a dep y u p s" by blast
  then have cap: "is_CapEx_Input (df pr ! nat (t - 1)) = capex_input a"
    by (simp add: income_row_fields(4))
  note nth = project_bs_nth [OF assms(1) k, unfolded z m]
  show ?thesis
    by (subst (1 2) nth) (use k len cap in \<open>simp add: bs_step_fields\<close>)
qed

theorem roll_forward_witness:
  "bs_PPE (bs_numeric (projr (project benchmark benchmark_assets)) ! nat (2 - 1)) =
     bs_PPE (bs_numeric (projr (project benchmark benchmark_assets)) ! nat (2 - 2))
       + is_CapEx_Input (df (projr (project benchmark benchmark_assets)) ! nat (2 - 1))
       - is_Depreciation (df (projr (project benchmark benchmark_assets)) ! nat (2 - 1)) \<and>
   bs_PPE (bs_numeric (projr (project benchmark benchmark_assets)) ! nat (1 - 1)) =
     opening_ppe benchmark
       + is_CapEx_Input (df (projr (project benchmark benchmark_assets)) ! nat (1 - 1))
       - is_Depreciation (df (projr (project benchmark benchmark_assets)) ! nat (1 - 1))"
proof -
  have y2: "(2::int) \<le> years benchmark" and y1: "(1::int) \<le> years benchmark"
    by (simp_all add: benchmark_years)
  have o2: "(1::int) \<le> 2" and o1: "(1::int) \<le> 1" by simp_all
  from roll_forward [OF benchmark_project o2 y2] roll_forward [OF benchmark_project o1 y1]
  show ?thesis by simp
qed

lemma income_row_opening_cl:
  "income_row (a\<lparr>opening_cl := x\<rparr>) dep y u p s = income_row a dep y u p s"
  by (simp add: income_row_def Let_def cogs_def opex_def manpower_cost_def taxes_def)

lemma income_loop_opening_cl:
  "income_loop (a\<lparr>opening_cl := x\<rparr>) assets_list ys u p s = income_loop a assets_list ys u p s"
  by (induction ys arbitrary: u p s) (simp_all add: income_row_opening_cl cong: sum.case_cong)

lemma cf_step_cl_prev:
  "cf_step (s\<lparr>cl_prev := x\<rparr>) row = (fst (cf_step s row), (snd (cf_step s row))\<lparr>cl_prev := x\<rparr>)"
  by (simp add: cf_step_def Let_def)

lemma cash_flow_loop_cl_prev:
  "cash_flow_loop (s\<lparr>cl_prev := x\<rparr>) rows = cash_flow_loop s rows"
proof (induction rows arbitrary: s)
  case Nil
  show ?case by simp
next
  case (Cons row rows)
  show ?case
    by (simp add: cf_step_cl_prev Cons.IH split: prod.splits)
qed

lemma cash_flow_opening_cl:
  "cash_flow (a\<lparr>opening_cl := x\<rparr>) rows = cash_flow a rows"
proof -
  have "cf_init (a\<lparr>opening_cl := x\<rparr>) = (cf_init a)\<lparr>cl_prev := x\<rparr>"
    by (simp add: cf_init_def)
  then show ?thesis by (simp add: cash_flow_def cash_flow_loop_cl_prev)
qed

lemma bs_step_opening_cl:
  "bs_step (a\<lparr>opening_cl := x\<rparr>) c p r row = bs_step a c p r row"
  by (simp add: bs_step_def Let_def)

lemma balance_loop_opening_cl:
  "balance_loop (a\<lparr>opening_cl := x\<rparr>) ccl i p r rows = balance_loop a ccl i p r rows"
  by (induction rows arbitrary: i p r)
    (simp_all add: bs_step_opening_cl Let_def cong: sum.case_cong)

lemma project_opening_cl:
  "project (a\<lparr>opening_cl := x\<rparr>) assets_list = project a assets_list"
  by (simp add: project_def income_statement_def income_loop_opening_cl cash_flow_opening_cl
      balance_sheet_def balance_loop_opening_cl cong: sum.case_cong prod.case_cong)

text \<open>
  Claim C9. Two sets of assumptions that differ only in the opening current liabilities
  give the same result of the whole script (every displayed table, the depreciation
  schedule, the balance gap and its banner, or the same error) and the same numeric
  tables: the value is only stored in the variable \<open>cl_prev\<close> of the cash flow pass,
  which no computation reads.
\<close>

theorem opening_cl_unused:
  "run to_float to_int (a\<lparr>opening_cl := x\<rparr>) = run to_float to_int a \<and>
   project (a\<lparr>opening_cl := x\<rparr>) assets_list = project a assets_list"
  by (simp add: run_def project_opening_cl Let_def cong: sum.case_cong)

lemma benchmark_parse:
  "parse_assets dec_float dec_int (assets_input benchmark) = benchmark_assets"
  by (simp add: benchmark_def benchmark_assets_def parse_assets_def parse_line_def split_def
      strip_def isspace_def dec_float_def dec_int_def unsigned_float_def unsigned_int_def
      digit_val_def List.map_filter_simps)

text \<open>
  Claim C6. On the benchmark scenario, with the asset parsed from its text line, the
  income pass returns three rows, and the row of year 1 has sales 1,000,000, cost of
  sales 400,000, gross profit 600,000, depreciation 30,000, manpower 300,000,
  operating expenses 530,000, EBIT 70,000, pre-tax profit 50,000, tax 10,000 and net
  income 40,000.
\<close>

theorem benchmark_year_one:
  "\<exists>r rest.
     income_statement benchmark (parse_assets dec_float dec_int (assets_input benchmark)) =
       Inr (r # rest) \<and>
     length rest = 2 \<and>
     is_Year r = ''Year 1'' \<and>
     is_Units r = 10000 \<and> is_Price_per_Unit r = 100 \<and>
     is_Sales r = 1000000 \<and>
     cogs benchmark (is_Units r) = 400000 \<and>
     is_Sales r - is_Gross_Profit r = 400000 \<and>
     is_Gross_Profit r = 600000 \<and>
     is_Depreciation r = 30000 \<and>
     is_Manpower r = 300000 \<and>
     opex benchmark (avg_salary benchmark) (is_Depreciation r) = 530000 \<and>
     is_Fixed_Costs r + is_Manpower r + is_Depreciation r = 530000 \<and>
     is_EBIT r = 70000 \<and>
     is_EBIT r - is_Interest r = 50000 \<and>
     is_Taxes r = 10000 \<and>
     is_Net_Income r = 40000"
proof -
  let ?r = "income_row benchmark 30000 1 (units benchmark) (price_per_unit benchmark)
              (avg_salary benchmark)"
  have y: "1 \<le> years benchmark" by (simp add: benchmark_years)
  from income_statement_first [OF y benchmark_depreciation] obtain rest where
    e: "income_statement benchmark benchmark_assets = Inr (?r # rest)" ..
  from income_statement_length [OF e] have l: "length rest = 2"
    by (simp add: benchmark_years)
  have lab: "year_label 1 = ''Year 1''"
    by (simp add: year_label_def str_int_def digit_char_def)
  have f: "is_Year ?r = ''Year 1''" "is_Units ?r = 10000" "is_Price_per_Unit ?r = 100"
    "is_Sales ?r = 1000000" "is_Gross_Profit ?r = 600000" "is_Depreciation ?r = 30000"
    "is_Manpower ?r = 300000" "is_Fixed_Costs ?r = 200000" "is_EBIT ?r = 70000"
    "is_Interest ?r = 20000" "is_Taxes ?r = 10000" "is_Net_Income ?r = 40000"
    by (simp_all add: income_row_def Let_def benchmark_def cogs_def opex_def
        manpower_cost_def taxes_def lab)
  have g: "cogs benchmark 10000 = 400000" "opex benchmark (avg_salary benchmark) 30000 = 530000"
    by (simp_all add: benchmark_def cogs_def opex_def manpower_cost_def)
  from e l f g show ?thesis
    unfolding benchmark_parse by (intro exI [of _ ?r] exI [of _ rest]) simp
qed

lemma zero_life_parse:
  "parse_assets dec_float dec_int ''Machinery, 300000, 0'' = [(''Machinery'', 300000, 0)]"
  by (simp add: parse_assets_def parse_line_def split_def
      strip_def isspace_def dec_float_def dec_int_def unsigned_float_def unsigned_int_def
      digit_val_def List.map_filter_simps)

lemma income_statement_zero_life:
  assumes "1 \<le> years a" and "depreciation assets_list = Inl e"
  shows "income_statement a assets_list = Inl e"
proof -
  from assms(1) have u: "[1..years a] = 1 # [2..years a]" by (simp add: upto_rec1)
  from assms(2) show ?thesis by (simp add: income_statement_def u)
qed

text \<open>
  Claim C3, at an asset line with life 0. The line parses, so the entry is kept in the
  asset list; the depreciation sum then divides by the zero life, and the whole run
  ends in ZeroDivisionError instead of dropping the entry and continuing.
\<close>

theorem zero_life_aborts:
  "assets_input (benchmark\<lparr>assets_input := ''Machinery, 300000, 0''\<rparr>) = ''Machinery, 300000, 0'' \<and>
   parse_assets dec_float dec_int ''Machinery, 300000, 0'' = [(''Machinery'', 300000, 0)] \<and>
   depreciation [(''Machinery'', 300000, 0)] = Inl ZeroDivisionError \<and>
   run dec_float dec_int (benchmark\<lparr>assets_input := ''Machinery, 300000, 0''\<rparr>) =
     Inl ZeroDivisionError"
proof -
  let ?a = "benchmark\<lparr>assets_input := ''Machinery, 300000, 0''\<rparr>"
  have d: "depreciation [(''Machinery'', 300000, 0)] = Inl ZeroDivisionError"
    by (simp add: depreciation_def py_div_def)
  have y: "1 \<le> years ?a" by (simp add: benchmark_def)
  from income_statement_zero_life [OF y d]
  have "project ?a [(''Machinery'', 300000, 0)] = Inl ZeroDivisionError"
    by (simp add: project_def)
  then have "run dec_float dec_int ?a = Inl ZeroDivisionError"
    by (simp add: run_def zero_life_parse)
  with d zero_life_parse show ?thesis by simp
qed

lemma project_empty_horizon:
  assumes "years a < 1"
  shows "project a assets_list =
           Inr \<lparr> df = [], cf_numeric = [], closing_cash_list = [], bs_numeric = [] \<rparr>"
proof -
  from assms have "[1..years a] = []" by simp
  then show ?thesis
    by (simp add: project_def income_statement_def cash_flow_def balance_sheet_def)
qed

text \<open>
  A horizon below 1. The slider of line 162 offers the values 1 to 10 only, and the
  script has no check of the horizon of its own. Were \<^verbatim>\<open>years\<close> below 1, the three
  passes would run over the empty range of years and return empty tables, and the
  script would stop after them: in the depreciation schedule on a zero life, or else in
  the balance sheet formatter, which reads the column Year of a frame without columns.
\<close>

lemma dep_schedule_error:
  "dep_schedule assets_list d = Inl e \<Longrightarrow> e = ZeroDivisionError"
proof (induction assets_list)
  case Nil
  then show ?case by simp
next
  case (Cons x xs)
  obtain n v l where x: "x = (n, v, l)" by (cases x)
  from Cons x show ?case
    by (auto simp: py_div_def split: if_splits sum.splits)
qed

lemma run_empty_horizon:
  assumes "years a < 1"
  shows "run to_float to_int a = Inl ZeroDivisionError \<or> run to_float to_int a = Inl KeyError"
proof -
  let ?as = "parse_assets to_float to_int (assets_input a)"
  show ?thesis
  proof (cases "dep_schedule ?as (decimals a)")
    case (Inl e)
    with dep_schedule_error [OF Inl] show ?thesis
      by (simp add: run_def Let_def project_empty_horizon [OF assms])
  next
    case (Inr ds)
    then show ?thesis
      by (simp add: run_def Let_def project_empty_horizon [OF assms] make_ifrs_balance_sheet_def)
  qed
qed



















lemma benchmark_ppe_year_one:
  "bs_PPE (bs_numeric (projr (project benchmark benchmark_assets)) ! 0) = 420000"
proof -
  let ?pr = "projr (project benchmark benchmark_assets)"
  have y: "1 \<le> years benchmark" by (simp add: benchmark_years)
  from income_statement_first [OF y benchmark_depreciation] project_Inr(1) [OF benchmark_project]
  obtain rest where
    "df ?pr = income_row benchmark 30000 1 (units benchmark) (price_per_unit benchmark)
                (avg_salary benchmark) # rest"
    by auto
  then have r: "is_CapEx_Input (df ?pr ! 0) = 50000" "is_Depreciation (df ?pr ! 0) = 30000"
    by (simp_all add: income_row_fields benchmark_def)
  have k: "0 < nat (years benchmark)" by (simp add: benchmark_years)
  have o: "opening_ppe benchmark = 400000" by (simp add: benchmark_def)
  show ?thesis
    by (subst project_bs_nth [OF benchmark_project k]) (simp add: bs_step_fields r o)
qed



subsection \<open>The asset rows of the balance sheet table\<close>






subsection \<open>The residual of the balancing plug\<close>

text \<open>The rounding error of one binary64 operation is at most \<open>\<bar>x\<bar> / 2 ^ 53\<close>.\<close>

lemma pow2_powr: "pow2 e = 2 powr (of_int e)"
proof (cases "0 \<le> e")
  case True
  then have "2 powr (of_int e) = (2::real) powr (real (nat e))" by simp
  also have "\<dots> = 2 ^ nat e" by (simp add: powr_realpow)
  finally show ?thesis using True by (simp add: pow2_def)
next
  case False
  then have "(2::real) powr (of_int e) = 2 powr (- real (nat (- e)))" by simp
  also have "\<dots> = 1 / 2 ^ nat (- e)" by (simp add: powr_minus powr_realpow divide_inverse)
  finally show ?thesis using False by (simp add: pow2_def)
qed

lemma pow2_pos: "0 < pow2 e"
  by (simp add: pow2_powr)

lemma pow2_add: "pow2 (a + b) = pow2 a * pow2 b"
  by (simp add: pow2_powr powr_add)

lemma pow2_less_iff: "pow2 a < pow2 b \<longleftrightarrow> a < b"
  by (simp add: pow2_powr)

lemma pow2_Suc: "pow2 (e + 1) = 2 * pow2 e"
  by (simp add: pow2_add) (simp add: pow2_def)

lemma binade_bounds:
  assumes "x \<noteq> 0"
  shows "pow2 (binade x) \<le> \<bar>x\<bar>" and "\<bar>x\<bar> < 2 * pow2 (binade x)"
proof -
  show "pow2 (binade x) \<le> \<bar>x\<bar>"
  proof (cases "1 \<le> \<bar>x\<bar>")
    case True
    then have m: "0 < \<lfloor>\<bar>x\<bar>\<rfloor>" by linarith
    from bitlen_bounds [OF m] have "2 ^ nat (bitlen \<lfloor>\<bar>x\<bar>\<rfloor> - 1) \<le> \<lfloor>\<bar>x\<bar>\<rfloor>" by simp
    then have "(2::real) ^ nat (bitlen \<lfloor>\<bar>x\<bar>\<rfloor> - 1) \<le> of_int \<lfloor>\<bar>x\<bar>\<rfloor>"
      by (metis of_int_le_iff of_int_numeral of_int_power)
    also have "\<dots> \<le> \<bar>x\<bar>" by linarith
    finally have "(2::real) ^ nat (bitlen \<lfloor>\<bar>x\<bar>\<rfloor> - 1) \<le> \<bar>x\<bar>" .
    moreover from m have "1 \<le> bitlen \<lfloor>\<bar>x\<bar>\<rfloor>" by (simp add: bitlen_alt_def)
    ultimately show ?thesis using True by (simp add: binade_def pow2_def)
  next
    case False
    let ?n = "nat \<lceil>1 / \<bar>x\<bar>\<rceil>"
    from assms have "0 < 1 / \<bar>x\<bar>" by simp
    have "1 / \<bar>x\<bar> \<le> of_int \<lceil>1 / \<bar>x\<bar>\<rceil>" by linarith
    also have "\<dots> \<le> real ?n" by simp
    also have "\<dots> \<le> 2 ^ ceillog2 ?n"
      using le_two_power_ceillog2 [of ?n] by (metis of_nat_le_iff of_nat_numeral of_nat_power)
    finally have "1 / \<bar>x\<bar> \<le> 2 ^ ceillog2 ?n" .
    with assms have "1 / 2 ^ ceillog2 ?n \<le> \<bar>x\<bar>"
      by (simp add: field_simps)
    moreover have "pow2 (- int (ceillog2 ?n)) = 1 / 2 ^ ceillog2 ?n"
      by (simp add: pow2_def)
    ultimately show ?thesis using False by (simp add: binade_def)
  qed
  show "\<bar>x\<bar> < 2 * pow2 (binade x)"
  proof (cases "1 \<le> \<bar>x\<bar>")
    case True
    then have m: "0 < \<lfloor>\<bar>x\<bar>\<rfloor>" by linarith
    from m have b: "1 \<le> bitlen \<lfloor>\<bar>x\<bar>\<rfloor>" by (simp add: bitlen_alt_def)
    from bitlen_bounds [OF m] have "\<lfloor>\<bar>x\<bar>\<rfloor> + 1 \<le> 2 ^ nat (bitlen \<lfloor>\<bar>x\<bar>\<rfloor>)" by simp
    then have "of_int (\<lfloor>\<bar>x\<bar>\<rfloor> + 1) \<le> (2::real) ^ nat (bitlen \<lfloor>\<bar>x\<bar>\<rfloor>)"
      by (metis of_int_le_iff of_int_numeral of_int_power)
    moreover have "\<bar>x\<bar> < of_int (\<lfloor>\<bar>x\<bar>\<rfloor> + 1)" by linarith
    ultimately have "\<bar>x\<bar> < 2 ^ nat (bitlen \<lfloor>\<bar>x\<bar>\<rfloor>)" by linarith
    moreover from b have "nat (bitlen \<lfloor>\<bar>x\<bar>\<rfloor>) = Suc (nat (bitlen \<lfloor>\<bar>x\<bar>\<rfloor> - 1))" by simp
    ultimately show ?thesis using True b by (simp add: binade_def pow2_def)
  next
    case False
    let ?n = "nat \<lceil>1 / \<bar>x\<bar>\<rceil>"
    let ?k = "ceillog2 ?n"
    from assms False have y: "1 < 1 / \<bar>x\<bar>" by simp
    then have n2: "2 \<le> ?n" by linarith
    then have n0: "0 < ?n" by linarith
    have k1: "1 \<le> ?k"
    proof (rule ccontr)
      assume "\<not> 1 \<le> ?k"
      then have "?k \<le> 0" by simp
      with ceillog2_le_iff [OF n0, of 0] have "?n \<le> 2 ^ 0" by blast
      then have "?n \<le> 1" by (simp only: power_0)
      with n2 show False by linarith
    qed
    have "\<not> ?k \<le> ?k - 1" using k1 by simp
    with ceillog2_le_iff [OF n0, of "?k - 1"] have "2 ^ (?k - 1) < ?n" by simp
    then have "int (2 ^ (?k - 1)) < \<lceil>1 / \<bar>x\<bar>\<rceil>" by linarith
    then have "of_int (int (2 ^ (?k - 1))) < 1 / \<bar>x\<bar>" by (simp only: less_ceiling_iff)
    then have "2 ^ (?k - 1) < 1 / \<bar>x\<bar>" by simp
    with assms have "\<bar>x\<bar> * 2 ^ (?k - 1) < 1" by (simp add: field_simps)
    moreover from k1 have "(2::real) ^ ?k = 2 * 2 ^ (?k - 1)"
      by (metis Suc_pred' less_eq_Suc_le power_Suc One_nat_def)
    ultimately have "\<bar>x\<bar> < 2 * (1 / 2 ^ ?k)" by (simp add: field_simps)
    moreover have "pow2 (- int ?k) = 1 / 2 ^ ?k" by (simp add: pow2_def)
    ultimately show ?thesis using False by (simp add: binade_def)
  qed
qed

lemma binade_eqI:
  assumes "pow2 e \<le> \<bar>x\<bar>" and "\<bar>x\<bar> < 2 * pow2 e"
  shows "binade x = e"
proof -
  from assms(1) pow2_pos [of e] have x: "x \<noteq> 0" by auto
  note b = binade_bounds [OF x]
  from assms(1) b(2) have "pow2 e < pow2 (binade x + 1)" by (simp add: pow2_Suc)
  then have "e < binade x + 1" by (simp only: pow2_less_iff)
  moreover from b(1) assms(2) have "pow2 (binade x) < pow2 (e + 1)" by (simp add: pow2_Suc)
  then have "binade x < e + 1" by (simp only: pow2_less_iff)
  ultimately show ?thesis by simp
qed



lemma binary64_eval:
  assumes "pow2 e \<le> \<bar>x\<bar>" and "\<bar>x\<bar> < 2 * pow2 e"
  shows "binary64 x = of_int (round_half_even (x / pow2 (e - 52))) * pow2 (e - 52)"
proof -
  from assms(1) pow2_pos [of e] have x: "x \<noteq> 0" by auto
  from binade_eqI [OF assms] x show ?thesis by (simp add: binary64_def Let_def)
qed






lemma benchmark_products_binary64:
  "binary64 (1000000 * binary64 (20 / 100)) = 200000"
  "binary64 (1000000 * binary64 (10 / 100)) = 100000"
  "binary64 (50000 * binary64 (20 / 100)) = 10000"
proof -
  have a: "binary64 (1 / 5) = 3602879701896397 / 18014398509481984"
    by (subst binary64_eval [where e = "- 3"]) (simp_all add: pow2_def round_half_even_def)
  have b: "binary64 (1 / 10) = 3602879701896397 / 36028797018963968"
    by (subst binary64_eval [where e = "- 4"]) (simp_all add: pow2_def round_half_even_def)
  show "binary64 (1000000 * binary64 (20 / 100)) = 200000"
    by (simp add: a) ((subst binary64_eval [where e = 17]), simp_all add: pow2_def round_half_even_def)
  show "binary64 (1000000 * binary64 (10 / 100)) = 100000"
    by (simp add: b) ((subst binary64_eval [where e = 16]), simp_all add: pow2_def round_half_even_def)
  show "binary64 (50000 * binary64 (20 / 100)) = 10000"
    by (simp add: a) ((subst binary64_eval [where e = 13]), simp_all add: pow2_def round_half_even_def)
qed

lemma bs_step_plug:
  "(bs_Current_Liabilities (bs_step a c p r row), bs_Total_Liabilities_Equity (bs_step a c p r row)) =
     plug (\<lambda>x. x) (bs_Total_Assets (bs_step a c p r row))
       (bs_Non_Current_Liabilities (bs_step a c p r row)) (bs_Total_Equity (bs_step a c p r row))"
  by (simp add: bs_step_def plug_def Let_def)




end
